theory Spec2Isabelle
  imports Main "HOL-Library.Word"
begin

section \<open>Message reading and writing over a TLS channel (src/tls/io/tls-io.c)\<close>

text \<open>
  A shallow embedding of \<^verbatim>\<open>tls-io.c\<close>. Every C function is a HOL function of the
  same name; what a C function reaches through a pointer is an argument and a component of
  the result. The channel and the allocator are the environment: the channel is a script
  of the results of successive \<^verbatim>\<open>SSL_read\<close> calls, the allocator an oracle that
  answers each request (numbered in call order) with success or failure.
\<close>

subsection \<open>Constants\<close>

abbreviation (input) FULL_BUFFER_SIZE :: int where "FULL_BUFFER_SIZE \<equiv> 1024"
abbreviation (input) READER_BUFFER_SIZE :: int where "READER_BUFFER_SIZE \<equiv> 160"
abbreviation (input) SLEEP_TIME :: int where "SLEEP_TIME \<equiv> 10"
abbreviation (input) MAX_RETRIES_TO_START_READING :: int where "MAX_RETRIES_TO_START_READING \<equiv> 10"
abbreviation (input) MAX_RETRIES_TO_STOP_READING :: int where "MAX_RETRIES_TO_STOP_READING \<equiv> 3"

text \<open>The range of a C \<^verbatim>\<open>int\<close> (32 bits) and of \<^verbatim>\<open>size_t\<close> (64 bits).\<close>

abbreviation (input) INT_MAX :: int where "INT_MAX \<equiv> 2147483647"
abbreviation (input) INT_MIN :: int where "INT_MIN \<equiv> - 2147483648"

definition size_t_of :: "int \<Rightarrow> nat" where
  "size_t_of i = nat (i mod 2 ^ 64)"

text \<open>
  The error codes of \<^verbatim>\<open>SSL_get_error\<close>, with the values \<^verbatim>\<open>openssl/ssl.h\<close>
  gives them.
\<close>

abbreviation (input) SSL_ERROR_NONE :: int where "SSL_ERROR_NONE \<equiv> 0"
abbreviation (input) SSL_ERROR_SSL :: int where "SSL_ERROR_SSL \<equiv> 1"
abbreviation (input) SSL_ERROR_WANT_READ :: int where "SSL_ERROR_WANT_READ \<equiv> 2"
abbreviation (input) SSL_ERROR_WANT_WRITE :: int where "SSL_ERROR_WANT_WRITE \<equiv> 3"
abbreviation (input) SSL_ERROR_SYSCALL :: int where "SSL_ERROR_SYSCALL \<equiv> 5"
abbreviation (input) SSL_ERROR_ZERO_RETURN :: int where "SSL_ERROR_ZERO_RETURN \<equiv> 6"

subsection \<open>Memory\<close>

text \<open>
  A byte of storage is a cell: \<open>None\<close> while its value is indeterminate (fresh from the
  allocator), \<open>Some b\<close> once written. A block is the list of its cells, and a pointer to
  a block is \<open>Some\<close> of it, \<open>None\<close> being \<^verbatim>\<open>NULL\<close>. What C leaves undefined is a
  value of type \<open>stop\<close>; so is a script of reads that ends while the loop still runs.
\<close>

type_synonym byte = "8 word"
type_synonym cell = "byte option"
type_synonym block = "cell list"

datatype stop = NullDereference | OutOfBounds | IntOverflow | ScriptEnded

definition malloc :: "bool \<Rightarrow> nat \<Rightarrow> block option" where
  "malloc ok n = (if ok then Some (replicate n None) else None)"

text \<open>
  A successful \<^verbatim>\<open>realloc\<close> to \<open>n\<close> bytes keeps the cells below \<open>n\<close> and leaves
  the new ones indeterminate; a failed one returns \<^verbatim>\<open>NULL\<close> and the old block stays
  as it is.
\<close>

definition resize :: "nat \<Rightarrow> block \<Rightarrow> block" where
  "resize n b = take n b @ replicate (n - length b) None"

definition realloc :: "bool \<Rightarrow> block option \<Rightarrow> nat \<Rightarrow> block option" where
  "realloc ok ptr n =
     (if ok then
        (case ptr of
           None \<Rightarrow> Some (replicate n None)
         | Some b \<Rightarrow> Some (resize n b))
      else None)"

definition memcpy :: "block option \<Rightarrow> int \<Rightarrow> block \<Rightarrow> int \<Rightarrow> stop + block" where
  "memcpy dst off src n =
     (case dst of
        None \<Rightarrow> Inl NullDereference
      | Some b \<Rightarrow>
          if off < 0 \<or> n < 0 \<or> int (length b) < off + n \<or> int (length src) < n
          then Inl OutOfBounds
          else Inr (take (nat off) b @ take (nat n) src @ drop (nat (off + n)) b))"

definition store :: "block option \<Rightarrow> int \<Rightarrow> byte \<Rightarrow> stop + block" where
  "store ptr i v =
     (case ptr of
        None \<Rightarrow> Inl NullDereference
      | Some b \<Rightarrow>
          if 0 \<le> i \<and> i < int (length b) then Inr (b[nat i := Some v])
          else Inl OutOfBounds)"

subsection \<open>Effects: sleeping and printing\<close>

record effects =
  sleeps :: "int list"
  stdout :: "string list"

text \<open>
  \<^verbatim>\<open>milliseconds_sleep\<close> repeats \<^verbatim>\<open>nanosleep\<close> while a signal interrupts it; the
  model records the request, in call order. No caller reads its return value.
  \<^verbatim>\<open>printf\<close> is only ever given one whole line: the model records the line, without
  its newline.
\<close>

definition milliseconds_sleep :: "int \<Rightarrow> effects \<Rightarrow> effects" where
  "milliseconds_sleep milliseconds fx = fx\<lparr>sleeps := sleeps fx @ [milliseconds]\<rparr>"

definition printf :: "string \<Rightarrow> effects \<Rightarrow> effects" where
  "printf line fx = fx\<lparr>stdout := stdout fx @ [line]\<rparr>"

subsection \<open>The read error classifier and the first-message waiter\<close>

text \<open>
  \<^verbatim>\<open>treat_SSL_read_error(err, &attempts_after_end_message, total_bytes, read_bytes,
  &end_connection)\<close>: the result is the return value, the counter, the flag and the
  effects. The two retry counters start at 0 in the reader and stop at their ceilings, so
  their increments are plain additions.
\<close>

definition treat_SSL_read_error ::
  "int \<Rightarrow> int \<Rightarrow> int \<Rightarrow> int \<Rightarrow> bool \<Rightarrow> effects \<Rightarrow> int \<times> int \<times> bool \<times> effects" where
  "treat_SSL_read_error err attempts tot rd endc fx =
     (if rd = 0 then
        (- 1, attempts, (if tot = 0 then True else endc), fx)
      else if err = SSL_ERROR_WANT_READ then
        (let attempts' = attempts + 1;
             fx' = milliseconds_sleep SLEEP_TIME fx
         in if attempts' = MAX_RETRIES_TO_STOP_READING
            then (- 1, attempts', endc, fx')
            else (0, attempts', endc, fx'))
      else if err = SSL_ERROR_WANT_WRITE \<or> err = SSL_ERROR_SYSCALL \<or> err = SSL_ERROR_SSL then
        (- 1, attempts, endc, printf ''(error) Error in read function!'' fx)
      else (0, attempts, endc, fx))"

text \<open>\<^verbatim>\<open>wait_for_first_message(&attempts_to_get_first_message)\<close>.\<close>

definition wait_for_first_message :: "int \<Rightarrow> effects \<Rightarrow> int \<times> int \<times> effects" where
  "wait_for_first_message attempts fx =
     (let attempts' = attempts + 1;
          fx' = milliseconds_sleep SLEEP_TIME fx
      in if attempts' = MAX_RETRIES_TO_START_READING
         then (- 1, attempts', fx')
         else (0, attempts', fx'))"

subsection \<open>The growable message buffer\<close>

text \<open>
  What \<^verbatim>\<open>save_read_data\<close> reaches through \<^verbatim>\<open>body\<close> and
  \<^verbatim>\<open>allocated_space\<close>, with the number of requests made to the allocator so far.
\<close>

record buffer =
  body :: "block option"
  allocated_space :: int
  heap_requests :: nat

text \<open>
  \<^verbatim>\<open>save_read_data(&body, read_buffer, &allocated_space, total_bytes, read_bytes)\<close>.
  \<open>heap k\<close> is the allocator's answer to request \<open>k\<close>. A failed
  \<^verbatim>\<open>realloc\<close> leaves \<^verbatim>\<open>*body\<close> as it was; the doubling of
  \<^verbatim>\<open>*allocated_space\<close> and the \<^verbatim>\<open>memcpy\<close> happen either way.
\<close>

definition save_read_data ::
  "(nat \<Rightarrow> bool) \<Rightarrow> buffer \<Rightarrow> block \<Rightarrow> int \<Rightarrow> int \<Rightarrow> stop + buffer" where
  "save_read_data heap B rbuf tot rd =
     (if allocated_space B - READER_BUFFER_SIZE \<ge> tot then
        (case memcpy (body B) tot rbuf rd of
           Inl s \<Rightarrow> Inl s
         | Inr b \<Rightarrow> Inr (B\<lparr>body := Some b\<rparr>))
      else if 2 * allocated_space B < INT_MIN \<or> INT_MAX < 2 * allocated_space B + 1 then
        Inl IntOverflow
      else
        (let space = 2 * allocated_space B;
             reallocated_body = realloc (heap (heap_requests B)) (body B) (size_t_of (space + 1));
             body' = (if reallocated_body = None then body B else reallocated_body)
         in case memcpy body' tot rbuf rd of
              Inl s \<Rightarrow> Inl s
            | Inr b \<Rightarrow>
                Inr \<lparr>body = Some b, allocated_space = space,
                     heap_requests = heap_requests B + 1\<rparr>))"

subsection \<open>The channel\<close>

text \<open>
  One entry of the script is what one call of \<^verbatim>\<open>SSL_read\<close> does: \<open>Data c\<close> delivers
  the bytes \<open>c\<close>, \<open>Failure n e\<close> returns \<open>n\<close> (zero or negative) and makes
  \<^verbatim>\<open>SSL_get_error\<close> answer \<open>e\<close>. A read delivers at most \<open>num\<close> bytes, at the start
  of the buffer it is given.
\<close>

datatype ssl_read = Data "byte list" | Failure int int

fun SSL_read :: "ssl_read \<Rightarrow> block \<Rightarrow> int \<Rightarrow> int \<times> block" where
  "SSL_read (Data c) rbuf num =
     (let c' = take (nat num) c
      in (int (length c'), map Some c' @ drop (length c') rbuf))"
| "SSL_read (Failure n e) rbuf num = (n, rbuf)"

fun SSL_get_error :: "ssl_read \<Rightarrow> int" where
  "SSL_get_error (Data c) = SSL_ERROR_NONE"
| "SSL_get_error (Failure n e) = e"

subsection \<open>The message reader\<close>

text \<open>
  The locals of \<^verbatim>\<open>read_data_from_ssl\<close>, with what it reaches through
  \<^verbatim>\<open>total_bytes\<close> and \<^verbatim>\<open>end_connection\<close>. \<^verbatim>\<open>read_bytes\<close> is declared
  without a value: it is \<open>None\<close> until the first read assigns it.
\<close>

record reader =
  buf :: buffer
  total_bytes :: int
  first_reading_done :: bool
  attempts_after_end_message :: int
  attempts_to_get_first_message :: int
  read_bytes :: "int option"
  read_buffer :: block
  end_connection :: bool
  io :: effects

datatype 'a iteration = Break 'a | Again 'a

text \<open>
  The second test of the \<^verbatim>\<open>else\<close> branch of the loop: the classifier is called and the
  loop is left when it returns \<open>-1\<close>.
\<close>

definition classify_failed_read :: "ssl_read \<Rightarrow> int \<Rightarrow> reader \<Rightarrow> reader iteration" where
  "classify_failed_read ev rd R =
     (case treat_SSL_read_error (SSL_get_error ev) (attempts_after_end_message R)
             (total_bytes R) rd (end_connection R) (io R) of
        (t, attempts', endc', fx') \<Rightarrow>
          (let R' = R\<lparr>attempts_after_end_message := attempts', end_connection := endc',
                       io := fx'\<rparr>
           in if t = - 1 then Break R' else Again R'))"

text \<open>
  One pass through the body of the \<^verbatim>\<open>do ... while (1)\<close> loop. The store
  \<^verbatim>\<open>read_buffer[read_bytes] = '\0'\<close> comes first, whatever the read returned: the
  buffer has \<^verbatim>\<open>READER_BUFFER_SIZE + 1\<close> cells, so the store is inside it for every
  count from 0 up, and after a read that returned a negative count it falls in front of
  the array, which is a stop. In the \<^verbatim>\<open>else\<close> branch the waiter is called only
  while no read has succeeded (\<^verbatim>\<open>&&\<close> evaluates its right operand only then), and
  the loop is left when the waiter's result differs from \<open>-1\<close>.
\<close>

definition loop_body :: "(nat \<Rightarrow> bool) \<Rightarrow> ssl_read \<Rightarrow> reader \<Rightarrow> stop + reader iteration" where
  "loop_body heap ev R0 =
     (case SSL_read ev (read_buffer R0) READER_BUFFER_SIZE of
        (rd, rbuf0) \<Rightarrow>
          (case store (Some rbuf0) rd 0 of
             Inl s \<Rightarrow> Inl s
           | Inr rbuf \<Rightarrow>
               (let R = R0\<lparr>read_bytes := Some rd, read_buffer := rbuf\<rparr>
                in if rd > 0 then
                     (case save_read_data heap (buf R) rbuf (total_bytes R) rd of
                        Inl s \<Rightarrow> Inl s
                      | Inr B \<Rightarrow>
                          if INT_MAX < total_bytes R + rd then Inl IntOverflow
                          else Inr (Again (R\<lparr>first_reading_done := True,
                                               attempts_after_end_message := 0,
                                               buf := B,
                                               total_bytes := total_bytes R + rd\<rparr>)))
                   else if first_reading_done R then Inr (classify_failed_read ev rd R)
                   else
                     (case wait_for_first_message (attempts_to_get_first_message R) (io R) of
                        (w, attempts', fx') \<Rightarrow>
                          (let R1 = R\<lparr>attempts_to_get_first_message := attempts', io := fx'\<rparr>
                           in if w \<noteq> - 1 then Inr (Break R1)
                              else Inr (classify_failed_read ev rd R1))))))"

text \<open>The loop: it runs until a pass leaves it, and the script must last until then.\<close>

fun read_loop :: "(nat \<Rightarrow> bool) \<Rightarrow> ssl_read list \<Rightarrow> reader \<Rightarrow> stop + reader" where
  "read_loop heap [] R = Inl ScriptEnded"
| "read_loop heap (ev # evs) R =
     (case loop_body heap ev R of
        Inl s \<Rightarrow> Inl s
      | Inr (Break R') \<Rightarrow> Inr R'
      | Inr (Again R') \<Rightarrow> read_loop heap evs R')"

text \<open>
  The end of \<^verbatim>\<open>read_data_from_ssl\<close>: the block is resized to
  \<^verbatim>\<open>*total_bytes + 1\<close>, the old block is kept when that fails, and
  \<^verbatim>\<open>body[*total_bytes] = '\0'\<close>.
\<close>

definition finalize :: "(nat \<Rightarrow> bool) \<Rightarrow> reader \<Rightarrow> stop + reader" where
  "finalize heap R =
     (if INT_MAX < total_bytes R + 1 then Inl IntOverflow
      else
        (let reallocated_body =
               realloc (heap (heap_requests (buf R))) (body (buf R))
                 (size_t_of (total_bytes R + 1));
             body' = (if reallocated_body = None then body (buf R) else reallocated_body)
         in case store body' (total_bytes R) 0 of
              Inl s \<Rightarrow> Inl s
            | Inr b \<Rightarrow>
                Inr (R\<lparr>buf := \<lparr>body = Some b, allocated_space = allocated_space (buf R),
                                heap_requests = heap_requests (buf R) + 1\<rparr>\<rparr>)))"

text \<open>
  The state at the head of the loop. \<open>endc\<close> is what the caller left in
  \<^verbatim>\<open>*end_connection\<close>; \<^verbatim>\<open>*total_bytes\<close> is overwritten with 0. The first request to
  the allocator is the \<^verbatim>\<open>malloc\<close> of the body.
\<close>

definition reader_start :: "(nat \<Rightarrow> bool) \<Rightarrow> bool \<Rightarrow> effects \<Rightarrow> reader" where
  "reader_start heap endc fx =
     \<lparr>buf = \<lparr>body = malloc (heap 0) (size_t_of FULL_BUFFER_SIZE),
              allocated_space = FULL_BUFFER_SIZE, heap_requests = 1\<rparr>,
      total_bytes = 0,
      first_reading_done = False,
      attempts_after_end_message = 0,
      attempts_to_get_first_message = 0,
      read_bytes = None,
      read_buffer = replicate (nat (READER_BUFFER_SIZE + 1)) None,
      end_connection = endc,
      io = fx\<rparr>"

text \<open>
  \<^verbatim>\<open>read_data_from_ssl(ssl, &end_connection, &total_bytes)\<close>. The result is the final
  state: the returned block is \<open>body (buf R)\<close>, and \<open>total_bytes R\<close> and
  \<open>end_connection R\<close> are what the caller finds behind its two pointers.
\<close>

definition read_data_from_ssl ::
  "(nat \<Rightarrow> bool) \<Rightarrow> ssl_read list \<Rightarrow> bool \<Rightarrow> effects \<Rightarrow> stop + reader" where
  "read_data_from_ssl heap script endc fx =
     (case read_loop heap script (reader_start heap endc fx) of
        Inl s \<Rightarrow> Inl s
      | Inr R \<Rightarrow> finalize heap R)"

text \<open>The bytes of the message a final state carries: the first \<open>total_bytes\<close> cells.\<close>

definition message :: "reader \<Rightarrow> block" where
  "message R = (case body (buf R) of None \<Rightarrow> [] | Some b \<Rightarrow> take (nat (total_bytes R)) b)"

subsection \<open>The message writer\<close>

text \<open>
  One entry of the script is what one call of \<^verbatim>\<open>SSL_write_ex\<close> does: its return value,
  what it stores in \<^verbatim>\<open>written\<close>, and what \<^verbatim>\<open>SSL_get_error\<close> answers after it.
  \<^verbatim>\<open>(int)written\<close> keeps the low 32 bits, read as a signed value.
\<close>

record ssl_write =
  wret :: int
  written :: nat
  status :: int

definition int_of_size_t :: "nat \<Rightarrow> int" where
  "int_of_size_t n = (int n + 2 ^ 31) mod 2 ^ 32 - 2 ^ 31"

text \<open>
  \<^verbatim>\<open>write_data_in_ssl(ssl, message, total_bytes)\<close>: the result is the return value,
  the rest of the script and the effects.
\<close>

fun write_data_in_ssl ::
  "ssl_write list \<Rightarrow> byte list \<Rightarrow> int \<Rightarrow> effects \<Rightarrow> stop + int \<times> ssl_write list \<times> effects" where
  "write_data_in_ssl [] msg tot fx = Inl ScriptEnded"
| "write_data_in_ssl (w # ws) msg tot fx =
     (if wret w = 0 then
        (let fx1 = printf ''(error) Failed to write HTTP request.'' fx
         in if status w = SSL_ERROR_WANT_WRITE \<or> status w = SSL_ERROR_WANT_READ
            then Inr (- 1, ws, printf ''(error) Write/read error.'' fx1)
            else Inr (- 1, ws, printf ''(error) Error within the SSL connection.'' fx1))
      else Inr (int_of_size_t (written w), ws, fx))"

subsection \<open>Predicates used to state the properties\<close>

text \<open>
  The state of the buffer between two passes of the loop: the body is allocated, the
  count of bytes is within the recorded capacity, and the recorded capacity is within the
  block.
\<close>

definition buffer_ok :: "reader \<Rightarrow> bool" where
  "buffer_ok R =
     (case body (buf R) of
        None \<Rightarrow> False
      | Some b \<Rightarrow>
          0 \<le> total_bytes R \<and> total_bytes R \<le> allocated_space (buf R)
          \<and> allocated_space (buf R) \<le> int (length b)
          \<and> READER_BUFFER_SIZE \<le> allocated_space (buf R)
          \<and> int (length (read_buffer R)) = READER_BUFFER_SIZE + 1)"

text \<open>
  Three allocators: one that grants every request, one that grants none, and one that
  grants the first request (the \<^verbatim>\<open>malloc\<close> of the reader) and no other.
\<close>

definition every_request_granted :: "nat \<Rightarrow> bool" where
  [simp]: "every_request_granted k = True"

definition no_request_granted :: "nat \<Rightarrow> bool" where
  [simp]: "no_request_granted k = False"

definition only_malloc_granted :: "nat \<Rightarrow> bool" where
  [simp]: "only_malloc_granted k = (k = 0)"

text \<open>A chunk a successful read can deliver: at least one byte, at most the read buffer.\<close>

definition chunk_ok :: "byte list \<Rightarrow> bool" where
  "chunk_ok c = (0 < length c \<and> int (length c) \<le> READER_BUFFER_SIZE)"

section \<open>Properties\<close>

subsection \<open>Memory and the buffer\<close>

lemma size_t_of_small: "0 \<le> i \<Longrightarrow> i \<le> INT_MAX \<Longrightarrow> size_t_of i = nat i"
  by (simp add: size_t_of_def)

lemma int_of_size_t_small: "int n \<le> INT_MAX \<Longrightarrow> int_of_size_t n = int n"
  by (simp add: int_of_size_t_def)

lemma memcpy_inside:
  "0 \<le> off \<Longrightarrow> 0 \<le> n \<Longrightarrow> off + n \<le> int (length b) \<Longrightarrow> n \<le> int (length src) \<Longrightarrow>
   memcpy (Some b) off src n = Inr (take (nat off) b @ take (nat n) src @ drop (nat (off + n)) b)"
  by (simp add: memcpy_def)

lemma length_copied:
  "0 \<le> off \<Longrightarrow> 0 \<le> n \<Longrightarrow> off + n \<le> int (length b) \<Longrightarrow> n \<le> int (length src) \<Longrightarrow>
   length (take (nat off) b @ take (nat n) src @ drop (nat (off + n)) b) = length b"
  by (simp add: nat_add_distrib)

lemma take_resize:
  "m \<le> n \<Longrightarrow> m \<le> length b \<Longrightarrow> take m (resize n b) = take m b"
  by (simp add: resize_def min_def)

lemma length_resize [simp]: "length (resize n b) = n"
  by (simp add: resize_def)

lemma save_read_data_in_place:
  assumes "body B = Some b" and "tot \<le> allocated_space B - READER_BUFFER_SIZE"
    and "0 \<le> tot" and "0 \<le> k" and "tot + k \<le> int (length b)" and "k \<le> int (length rbuf)"
  shows "save_read_data heap B rbuf tot k =
           Inr (B\<lparr>body := Some (take (nat tot) b @ take (nat k) rbuf @ drop (nat (tot + k)) b)\<rparr>)"
  using assms by (simp add: save_read_data_def memcpy_inside)

lemma save_read_data_resized:
  assumes "body B = Some b" and "allocated_space B - READER_BUFFER_SIZE < tot"
    and "heap (heap_requests B)"
    and "0 \<le> allocated_space B" and "2 * allocated_space B + 1 \<le> INT_MAX"
    and "0 \<le> tot" and "0 \<le> k" and "tot + k \<le> 2 * allocated_space B + 1" and "k \<le> int (length rbuf)"
    and "b1 = resize (nat (2 * allocated_space B + 1)) b"
  shows "save_read_data heap B rbuf tot k =
           Inr \<lparr>body = Some (take (nat tot) b1 @ take (nat k) rbuf @ drop (nat (tot + k)) b1),
                allocated_space = 2 * allocated_space B,
                heap_requests = heap_requests B + 1\<rparr>"
proof -
  have sz: "size_t_of (2 * allocated_space B + 1) = nat (2 * allocated_space B + 1)"
    using assms(4,5) by (simp add: size_t_of_small)
  have len: "int (length b1) = 2 * allocated_space B + 1"
    using assms(4) by (simp add: assms(10))
  have "memcpy (Some b1) tot rbuf k =
          Inr (take (nat tot) b1 @ take (nat k) rbuf @ drop (nat (tot + k)) b1)"
    using assms(6-9) len by (simp add: memcpy_inside)
  then show ?thesis
    using assms(1-5) sz by (simp add: save_read_data_def realloc_def Let_def assms(10))
qed

lemma SSL_read_Data:
  "int (length c) \<le> READER_BUFFER_SIZE \<Longrightarrow>
   SSL_read (Data c) rbuf READER_BUFFER_SIZE = (int (length c), map Some c @ drop (length c) rbuf)"
  by simp

lemma store_inside:
  "0 \<le> i \<Longrightarrow> i < int (length b) \<Longrightarrow> store (Some b) i v = Inr (b[nat i := Some v])"
  by (simp add: store_def)

lemma store_in_front: "i < 0 \<Longrightarrow> store (Some b) i v = Inl OutOfBounds"
  by (simp add: store_def)

lemma read_buffer_after_Data:
  assumes "int (length c) \<le> READER_BUFFER_SIZE" and "int (length rbuf) = READER_BUFFER_SIZE + 1"
  shows "store (Some (map Some c @ drop (length c) rbuf)) (int (length c)) 0
           = Inr ((map Some c @ drop (length c) rbuf)[length c := Some 0])"
    and "take (length c) ((map Some c @ drop (length c) rbuf)[length c := Some 0]) = map Some c"
    and "int (length ((map Some c @ drop (length c) rbuf)[length c := Some 0]))
           = READER_BUFFER_SIZE + 1"
  using assms by (simp_all add: store_def)

lemma message_copied:
  assumes "0 \<le> tot" and "0 \<le> k" and "tot + k \<le> int (length b)" and "k \<le> int (length src)"
  shows "take (nat (tot + k)) (take (nat tot) b @ take (nat k) src @ drop (nat (tot + k)) b)
           = take (nat tot) b @ take (nat k) src"
  using assms by (simp add: nat_add_distrib)

lemma loop_body_Data:
  assumes "int (length c) \<le> READER_BUFFER_SIZE" and "c \<noteq> []"
    and "int (length (read_buffer R)) = READER_BUFFER_SIZE + 1"
    and "rbuf = (map Some c @ drop (length c) (read_buffer R))[length c := Some 0]"
    and "save_read_data heap (buf R) rbuf (total_bytes R) (int (length c)) = Inr B"
    and "total_bytes R + int (length c) \<le> INT_MAX"
  shows "loop_body heap (Data c) R =
           Inr (Again (R\<lparr>read_bytes := Some (int (length c)), read_buffer := rbuf,
                          first_reading_done := True, attempts_after_end_message := 0,
                          buf := B, total_bytes := total_bytes R + int (length c)\<rparr>))"
proof -
  have "store (Some (map Some c @ drop (length c) (read_buffer R))) (int (length c)) 0 = Inr rbuf"
    using read_buffer_after_Data(1) [OF assms(1,3)] assms(4) by simp
  then show ?thesis
    using assms(1,2,5,6) by (simp add: loop_body_def Let_def)
qed

lemma loop_body_Data_ok:
  assumes ok: "buffer_ok R" and heap: "\<forall>k. heap k" and c: "chunk_ok c"
    and bound: "total_bytes R + int (length c) + READER_BUFFER_SIZE \<le> 2 ^ 30"
  shows "\<exists>R'. loop_body heap (Data c) R = Inr (Again R')
            \<and> buffer_ok R'
            \<and> message R' = message R @ map Some c
            \<and> total_bytes R' = total_bytes R + int (length c)
            \<and> first_reading_done R' \<and> attempts_after_end_message R' = 0
            \<and> end_connection R' = end_connection R \<and> io R' = io R
            \<and> attempts_to_get_first_message R' = attempts_to_get_first_message R"
proof -
  obtain b where b: "body (buf R) = Some b"
    using ok by (auto simp: buffer_ok_def split: option.splits)
  define t where "t = total_bytes R"
  define a where "a = allocated_space (buf R)"
  define k where "k = int (length c)"
  define rbuf where
    "rbuf = (map Some c @ drop (length c) (read_buffer R))[length c := Some 0]"
  have inv: "0 \<le> t" "t \<le> a" "a \<le> int (length b)" "READER_BUFFER_SIZE \<le> a"
    and lrb0: "int (length (read_buffer R)) = READER_BUFFER_SIZE + 1"
    using ok b by (simp_all add: buffer_ok_def t_def a_def)
  have k: "0 < k" "k \<le> READER_BUFFER_SIZE" and cne: "c \<noteq> []"
    using c by (auto simp: chunk_ok_def k_def)
  have src: "take (nat k) rbuf = map Some c"
    using read_buffer_after_Data(2) [of c "read_buffer R"] k(2) lrb0 by (simp add: k_def rbuf_def)
  have lrb: "int (length rbuf) = READER_BUFFER_SIZE + 1"
    using read_buffer_after_Data(3) [of c "read_buffer R"] k(2) lrb0 by (simp add: k_def rbuf_def)
  have lsrc: "k \<le> int (length rbuf)"
    using k(2) lrb by simp
  have msg: "message R = take (nat t) b"
    by (simp add: message_def b t_def)
  have tmax: "t + k \<le> INT_MAX"
    using bound by (simp add: t_def k_def)
  have "\<exists>B b'. save_read_data heap (buf R) rbuf t k = Inr B \<and> body B = Some b'
          \<and> t + k \<le> allocated_space B \<and> allocated_space B \<le> int (length b')
          \<and> READER_BUFFER_SIZE \<le> allocated_space B
          \<and> take (nat (t + k)) b' = take (nat t) b @ map Some c"
  proof (cases "t \<le> a - READER_BUFFER_SIZE")
    case True
    define b' where "b' = take (nat t) b @ take (nat k) rbuf @ drop (nat (t + k)) b"
    have fits: "t + k \<le> int (length b)"
      using True k(2) inv(3) by linarith
    have save: "save_read_data heap (buf R) rbuf t k = Inr ((buf R)\<lparr>body := Some b'\<rparr>)"
      unfolding b'_def using b True inv(1) k(1) fits lsrc
      by (intro save_read_data_in_place) (simp_all add: a_def)
    have len: "length b' = length b"
      unfolding b'_def using inv(1) k(1) fits lsrc by (intro length_copied) simp_all
    have tk: "take (nat (t + k)) b' = take (nat t) b @ map Some c"
      unfolding b'_def using message_copied [of t k b rbuf] inv(1) k(1) fits lsrc src by simp
    have "t + k \<le> a" using True k(2) by linarith
    then show ?thesis
      using save len tk inv by (auto simp: a_def)
  next
    case False
    define b1 where "b1 = resize (nat (2 * a + 1)) b"
    define b' where "b' = take (nat t) b1 @ take (nat k) rbuf @ drop (nat (t + k)) b1"
    have a0: "0 \<le> a" using inv(4) by simp
    have amax: "2 * a + 1 \<le> INT_MAX"
      using False bound k(1) by (simp add: t_def k_def)
    have l1: "int (length b1) = 2 * a + 1"
      using a0 by (simp add: b1_def)
    have fits: "t + k \<le> int (length b1)"
      using inv(2,4) k(2) l1 by linarith
    have save: "save_read_data heap (buf R) rbuf t k =
        Inr \<lparr>body = Some b', allocated_space = 2 * allocated_space (buf R),
             heap_requests = heap_requests (buf R) + 1\<rparr>"
      unfolding b'_def
    proof (rule save_read_data_resized [OF b])
      show "allocated_space (buf R) - READER_BUFFER_SIZE < t" using False by (simp add: a_def)
      show "heap (heap_requests (buf R))" using heap by simp
      show "0 \<le> allocated_space (buf R)" using a0 by (simp add: a_def)
      show "2 * allocated_space (buf R) + 1 \<le> INT_MAX" using amax by (simp add: a_def)
      show "0 \<le> t" by (rule inv(1))
      show "0 \<le> k" using k(1) by simp
      show "t + k \<le> 2 * allocated_space (buf R) + 1" using fits l1 by (simp add: a_def)
      show "k \<le> int (length rbuf)" by (rule lsrc)
      show "b1 = resize (nat (2 * allocated_space (buf R) + 1)) b"
        by (simp add: b1_def a_def)
    qed
    have len: "length b' = length b1"
      unfolding b'_def using inv(1) k(1) fits lsrc by (intro length_copied) simp_all
    have t1: "take (nat t) b1 = take (nat t) b"
      unfolding b1_def using inv(1,2,3) a0 by (intro take_resize) linarith+
    have tk: "take (nat (t + k)) b' = take (nat t) b @ map Some c"
      unfolding b'_def using message_copied [of t k b1 rbuf] inv(1) k(1) fits lsrc src t1 by simp
    have l': "int (length b') = 2 * a + 1"
      using len l1 by simp
    have "t + k \<le> 2 * a" using inv(2,4) k(2) by linarith
    then show ?thesis
      using save l' tk inv(4) by (auto simp: a_def)
  qed
  then obtain B b' where save: "save_read_data heap (buf R) rbuf t k = Inr B"
    and B: "body B = Some b'" "t + k \<le> allocated_space B" "allocated_space B \<le> int (length b')"
      "READER_BUFFER_SIZE \<le> allocated_space B"
      "take (nat (t + k)) b' = take (nat t) b @ map Some c"
    by blast
  define R' where
    "R' = R\<lparr>read_bytes := Some (int (length c)), read_buffer := rbuf,
             first_reading_done := True, attempts_after_end_message := 0,
             buf := B, total_bytes := total_bytes R + int (length c)\<rparr>"
  have step: "loop_body heap (Data c) R = Inr (Again R')"
    unfolding R'_def
    using k(2) cne lrb0 rbuf_def save tmax
    by (intro loop_body_Data) (simp_all add: k_def t_def)
  have ok': "buffer_ok R'"
    using B inv(1) k(1) lrb by (simp add: buffer_ok_def R'_def t_def k_def)
  have msg': "message R' = message R @ map Some c"
    using B(1,5) msg by (simp add: message_def R'_def t_def k_def)
  show ?thesis
    using step ok' msg' by (intro exI [of _ R']) (simp add: R'_def)
qed

lemma copied_parts:
  assumes "0 \<le> tot" and "0 \<le> k" and "tot + k \<le> int (length b)" and "k \<le> int (length src)"
    and "b' = take (nat tot) b @ take (nat k) src @ drop (nat (tot + k)) b"
  shows "length b' = length b"
    and "take (nat tot) b' = take (nat tot) b"
    and "take (nat k) (drop (nat tot) b') = take (nat k) src"
    and "drop (nat (tot + k)) b' = drop (nat (tot + k)) b"
  using assms by (simp_all add: nat_add_distrib)

subsection \<open>The read loop on data and at the end of a message\<close>

lemma read_loop_Data_ok:
  assumes "\<forall>k. heap k" and "list_all chunk_ok chunks" and "buffer_ok R"
    and "total_bytes R + int (length (concat chunks)) + READER_BUFFER_SIZE \<le> 2 ^ 30"
  shows "\<exists>R'. (\<forall>rest. read_loop heap (map Data chunks @ rest) R = read_loop heap rest R')
            \<and> buffer_ok R'
            \<and> message R' = message R @ map Some (concat chunks)
            \<and> total_bytes R' = total_bytes R + int (length (concat chunks))
            \<and> (chunks = [] \<and> R' = R \<or> first_reading_done R' \<and> attempts_after_end_message R' = 0)
            \<and> end_connection R' = end_connection R \<and> io R' = io R"
  using assms(2-)
proof (induction chunks arbitrary: R)
  case Nil
  then show ?case by (intro exI [of _ R]) simp
next
  case (Cons c chunks)
  have c: "chunk_ok c" and cs: "list_all chunk_ok chunks"
    using Cons.prems(1) by simp_all
  have b1: "total_bytes R + int (length c) + READER_BUFFER_SIZE \<le> 2 ^ 30"
    using Cons.prems(3) by simp
  obtain R1 where R1: "loop_body heap (Data c) R = Inr (Again R1)" "buffer_ok R1"
    "message R1 = message R @ map Some c"
    "total_bytes R1 = total_bytes R + int (length c)"
    "first_reading_done R1" "attempts_after_end_message R1 = 0"
    "end_connection R1 = end_connection R" "io R1 = io R"
    using loop_body_Data_ok [OF Cons.prems(2) assms(1) c b1] by blast
  have b2: "total_bytes R1 + int (length (concat chunks)) + READER_BUFFER_SIZE \<le> 2 ^ 30"
    using Cons.prems(3) R1(4) by simp
  obtain R' where R': "\<forall>rest. read_loop heap (map Data chunks @ rest) R1 = read_loop heap rest R'"
    "buffer_ok R'" "message R' = message R1 @ map Some (concat chunks)"
    "total_bytes R' = total_bytes R1 + int (length (concat chunks))"
    "chunks = [] \<and> R' = R1 \<or> first_reading_done R' \<and> attempts_after_end_message R' = 0"
    "end_connection R' = end_connection R1" "io R' = io R1"
    using Cons.IH [OF cs R1(2) b2] by blast
  have reading: "first_reading_done R' \<and> attempts_after_end_message R' = 0"
    using R'(5) R1(5,6) by auto
  have loop: "\<forall>rest. read_loop heap (map Data (c # chunks) @ rest) R = read_loop heap rest R'"
    using R1(1) R'(1) by simp
  show ?case
    using loop R1(3,4,7,8) R'(2,3,4,6,7) reading by (intro exI [of _ R']) simp
qed

lemma read_loop_zero_read:
  assumes "first_reading_done R" and "total_bytes R \<noteq> 0" and "read_buffer R \<noteq> []"
  shows "read_loop heap (Failure 0 e # rest) R =
           Inr (R\<lparr>read_bytes := Some 0, read_buffer := (read_buffer R)[0 := Some 0]\<rparr>)"
  using assms
  by (simp add: loop_body_def store_def classify_failed_read_def treat_SSL_read_error_def Let_def)

lemma loop_body_negative_read:
  "n < 0 \<Longrightarrow> loop_body heap (Failure n e) R = Inl OutOfBounds"
  by (simp add: loop_body_def store_def)

subsection \<open>Finalization and the start of a read\<close>

lemma finalize_resized:
  assumes "body (buf R) = Some b" and "heap (heap_requests (buf R))"
    and "0 \<le> total_bytes R" and "total_bytes R < INT_MAX"
  shows "finalize heap R =
           Inr (R\<lparr>buf := \<lparr>body = Some ((resize (nat (total_bytes R) + 1) b)
                                         [nat (total_bytes R) := Some 0]),
                           allocated_space = allocated_space (buf R),
                           heap_requests = heap_requests (buf R) + 1\<rparr>\<rparr>)"
  using assms by (simp add: finalize_def realloc_def store_def size_t_of_small Let_def nat_add_distrib)

lemma finalize_kept:
  assumes "body (buf R) = Some b" and "\<not> heap (heap_requests (buf R))"
    and "0 \<le> total_bytes R" and "total_bytes R < int (length b)" and "total_bytes R < INT_MAX"
  shows "finalize heap R =
           Inr (R\<lparr>buf := \<lparr>body = Some (b[nat (total_bytes R) := Some 0]),
                           allocated_space = allocated_space (buf R),
                           heap_requests = heap_requests (buf R) + 1\<rparr>\<rparr>)"
  using assms by (simp add: finalize_def realloc_def store_def Let_def)

lemma take_resize_terminated:
  "n \<le> length b \<Longrightarrow> take n ((resize (n + 1) b)[n := Some v]) = take n b"
  by (simp add: take_resize)

lemma nth_resize_terminated: "(resize (n + 1) b)[n := Some v] ! n = Some v"
  by simp

lemma buffer_ok_reader_start: "heap 0 \<Longrightarrow> buffer_ok (reader_start heap endc fx)"
  by (simp add: buffer_ok_def reader_start_def malloc_def size_t_of_def)

lemma reader_start_fields [simp]:
  "total_bytes (reader_start heap endc fx) = 0"
  "end_connection (reader_start heap endc fx) = endc"
  "io (reader_start heap endc fx) = fx"
  "first_reading_done (reader_start heap endc fx) = False"
  "attempts_to_get_first_message (reader_start heap endc fx) = 0"
  "attempts_after_end_message (reader_start heap endc fx) = 0"
  by (simp_all add: reader_start_def)

lemma message_reader_start [simp]: "message (reader_start heap endc fx) = []"
  by (simp add: message_def reader_start_def split: option.splits)

lemma length_concat_chunks:
  "list_all chunk_ok chunks \<Longrightarrow> chunks \<noteq> [] \<Longrightarrow> 0 < length (concat chunks)"
  by (cases chunks) (simp_all add: chunk_ok_def)

lemma finalize_buffer_ok:
  assumes "buffer_ok R" and "heap (heap_requests (buf R))" and "total_bytes R < INT_MAX"
  shows "\<exists>R' b'. finalize heap R = Inr R' \<and> message R' = message R
           \<and> total_bytes R' = total_bytes R \<and> end_connection R' = end_connection R
           \<and> io R' = io R
           \<and> body (buf R') = Some b' \<and> length b' = nat (total_bytes R) + 1
           \<and> b' ! nat (total_bytes R) = Some 0"
proof -
  obtain b where b: "body (buf R) = Some b"
    using assms(1) by (auto simp: buffer_ok_def split: option.splits)
  have t: "0 \<le> total_bytes R" "total_bytes R \<le> int (length b)"
    using assms(1) b by (simp_all add: buffer_ok_def)
  define n where "n = nat (total_bytes R)"
  define R' where "R' = R\<lparr>buf := \<lparr>body = Some ((resize (n + 1) b)[n := Some 0]),
                           allocated_space = allocated_space (buf R),
                           heap_requests = heap_requests (buf R) + 1\<rparr>\<rparr>"
  have fin: "finalize heap R = Inr R'"
    using finalize_resized [where heap = heap, OF b assms(2) t(1) assms(3)]
    by (simp add: R'_def n_def)
  have nb: "n \<le> length b"
    using t by (simp add: n_def)
  have "message R' = take n ((resize (n + 1) b)[n := Some 0])"
    by (simp add: message_def R'_def n_def)
  also have "\<dots> = take n b"
    using nb by (rule take_resize_terminated)
  also have "\<dots> = message R"
    by (simp add: message_def b n_def)
  finally have msg: "message R' = message R" .
  show ?thesis
    using fin msg nth_resize_terminated [of n b 0]
    by (intro exI [of _ R'] exI [of _ "(resize (n + 1) b)[n := Some 0]"])
      (simp add: R'_def n_def)
qed

subsection \<open>The end-of-connection flag along a run\<close>

lemma classify_failed_read_flag:
  "classify_failed_read ev rd R = Again R' \<Longrightarrow>
     end_connection R' = end_connection R \<and> read_bytes R' = read_bytes R
     \<and> total_bytes R' = total_bytes R"
  "classify_failed_read ev rd R = Break R' \<Longrightarrow>
     read_bytes R' = read_bytes R \<and> total_bytes R' = total_bytes R
     \<and> (end_connection R' = end_connection R
         \<or> end_connection R' \<and> rd = 0 \<and> total_bytes R = 0)"
  by (auto simp: classify_failed_read_def treat_SSL_read_error_def Let_def
      split: if_splits)

lemma loop_body_flag:
  "loop_body heap ev R = Inr (Again R') \<Longrightarrow> end_connection R' = end_connection R"
  "loop_body heap ev R = Inr (Break R') \<Longrightarrow>
     end_connection R' = end_connection R
     \<or> end_connection R' \<and> read_bytes R' = Some 0 \<and> total_bytes R' = 0"
  by (auto simp: loop_body_def Let_def wait_for_first_message_def
      dest!: classify_failed_read_flag
      split: prod.splits sum.splits if_splits)

lemma read_loop_flag:
  "read_loop heap script R = Inr R' \<Longrightarrow>
     end_connection R' = end_connection R
     \<or> end_connection R' \<and> read_bytes R' = Some 0 \<and> total_bytes R' = 0"
proof (induction script arbitrary: R)
  case Nil
  then show ?case by simp
next
  case (Cons ev script)
  show ?case
  proof (cases "loop_body heap ev R")
    case (Inl s)
    then show ?thesis using Cons.prems by simp
  next
    case (Inr it)
    show ?thesis
    proof (cases it)
      case (Break R1)
      then show ?thesis using Cons.prems Inr loop_body_flag(2) [of heap ev R R1] by simp
    next
      case (Again R1)
      then have "read_loop heap script R1 = Inr R'"
        using Cons.prems Inr by simp
      then show ?thesis
        using Cons.IH [of R1] loop_body_flag(1) [of heap ev R R1] Inr Again by simp
    qed
  qed
qed

lemma finalize_frame:
  "finalize heap R = Inr R' \<Longrightarrow>
     end_connection R' = end_connection R \<and> read_bytes R' = read_bytes R
     \<and> total_bytes R' = total_bytes R"
  by (auto simp: finalize_def Let_def split: if_splits sum.splits)

text \<open>The definitions that evaluate a run on a given script.\<close>

lemmas reader_defs =
  read_data_from_ssl_def reader_start_def loop_body_def classify_failed_read_def finalize_def
  save_read_data_def treat_SSL_read_error_def wait_for_first_message_def
  milliseconds_sleep_def printf_def
  malloc_def realloc_def resize_def memcpy_def store_def size_t_of_def

subsection \<open>The read error classifier\<close>

text \<open>
  C4. \<^verbatim>\<open>treat_SSL_read_error\<close> follows the decision table. A read that returned 0
  bytes stops the loop (\<open>-1\<close>) and sets the flag exactly when no byte has been
  received; otherwise would-block-on-read adds one to the counter, sleeps once for
  \<^verbatim>\<open>SLEEP_TIME\<close> and stops exactly when the counter has reached 3; would-block-on-write,
  a syscall error and a protocol error stop at once; every other code continues (\<open>0\<close>).
\<close>

theorem treat_SSL_read_error_decision_table:
  "(rd = 0 \<longrightarrow>
      treat_SSL_read_error err a tot rd e fx = (- 1, a, (tot = 0 \<or> e), fx))
   \<and> (rd \<noteq> 0 \<and> err = SSL_ERROR_WANT_READ \<longrightarrow>
      (case treat_SSL_read_error err a tot rd e fx of
         (t, a', e', fx') \<Rightarrow>
           a' = a + 1 \<and> e' = e
           \<and> sleeps fx' = sleeps fx @ [SLEEP_TIME] \<and> stdout fx' = stdout fx
           \<and> (t = - 1 \<or> t = 0)
           \<and> (t = - 1 \<longleftrightarrow> a' = MAX_RETRIES_TO_STOP_READING)))
   \<and> (rd \<noteq> 0 \<and> (err = SSL_ERROR_WANT_WRITE \<or> err = SSL_ERROR_SYSCALL \<or> err = SSL_ERROR_SSL) \<longrightarrow>
      (case treat_SSL_read_error err a tot rd e fx of
         (t, a', e', fx') \<Rightarrow> t = - 1 \<and> a' = a \<and> e' = e \<and> sleeps fx' = sleeps fx))
   \<and> (rd \<noteq> 0 \<and> err \<noteq> SSL_ERROR_WANT_READ \<and> err \<noteq> SSL_ERROR_WANT_WRITE
        \<and> err \<noteq> SSL_ERROR_SYSCALL \<and> err \<noteq> SSL_ERROR_SSL \<longrightarrow>
      treat_SSL_read_error err a tot rd e fx = (0, a, e, fx))"
  by (simp add: treat_SSL_read_error_def milliseconds_sleep_def printf_def Let_def)

theorem treat_SSL_read_error_decision_table_witness:
  "treat_SSL_read_error SSL_ERROR_ZERO_RETURN 0 0 0 False \<lparr>sleeps = [], stdout = []\<rparr>
     = (- 1, 0, True, \<lparr>sleeps = [], stdout = []\<rparr>)
   \<and> treat_SSL_read_error SSL_ERROR_ZERO_RETURN 0 160 0 False \<lparr>sleeps = [], stdout = []\<rparr>
     = (- 1, 0, False, \<lparr>sleeps = [], stdout = []\<rparr>)
   \<and> fst (treat_SSL_read_error SSL_ERROR_WANT_READ 2 160 (- 1) False \<lparr>sleeps = [], stdout = []\<rparr>) = - 1
   \<and> fst (treat_SSL_read_error SSL_ERROR_WANT_READ 1 160 (- 1) False \<lparr>sleeps = [], stdout = []\<rparr>) = 0
   \<and> fst (treat_SSL_read_error SSL_ERROR_SYSCALL 0 160 (- 1) False \<lparr>sleeps = [], stdout = []\<rparr>) = - 1
   \<and> treat_SSL_read_error SSL_ERROR_NONE 0 160 (- 1) False \<lparr>sleeps = [], stdout = []\<rparr>
     = (0, 0, False, \<lparr>sleeps = [], stdout = []\<rparr>)"
  using treat_SSL_read_error_decision_table [of 0 6 0 0 False "\<lparr>sleeps = [], stdout = []\<rparr>"]
    treat_SSL_read_error_decision_table [of 0 6 0 160 False "\<lparr>sleeps = [], stdout = []\<rparr>"]
    treat_SSL_read_error_decision_table [of "- 1" 2 2 160 False "\<lparr>sleeps = [], stdout = []\<rparr>"]
    treat_SSL_read_error_decision_table [of "- 1" 2 1 160 False "\<lparr>sleeps = [], stdout = []\<rparr>"]
    treat_SSL_read_error_decision_table [of "- 1" 5 0 160 False "\<lparr>sleeps = [], stdout = []\<rparr>"]
    treat_SSL_read_error_decision_table [of "- 1" 0 0 160 False "\<lparr>sleeps = [], stdout = []\<rparr>"]
  by (auto split: prod.splits)

subsection \<open>Reading a whole message\<close>

text \<open>
  C3, as stated, fails in two ways. The flag is never written false: a caller that hands
  in true gets true back with the payload. And a message that ends in would-block reads
  is not returned at all: each such read returns a negative count, and the store
  \<^verbatim>\<open>read_buffer[read_bytes] = '\0'\<close> then falls in front of the array.
\<close>

theorem read_data_from_ssl_keeps_true_flag:
  "(case read_data_from_ssl every_request_granted
           [Data [1, 2, 3], Failure 0 SSL_ERROR_ZERO_RETURN] True \<lparr>sleeps = [], stdout = []\<rparr> of
      Inr R \<Rightarrow> message R = [Some 1, Some 2, Some 3] \<and> total_bytes R = 3
               \<and> end_connection R = True
    | Inl s \<Rightarrow> False)
   \<and> read_data_from_ssl every_request_granted
         [Data (replicate 100 1), Data (replicate 60 2),
          Failure (- 1) SSL_ERROR_WANT_READ, Failure (- 1) SSL_ERROR_WANT_READ,
          Failure (- 1) SSL_ERROR_WANT_READ]
         False \<lparr>sleeps = [], stdout = []\<rparr>
       = Inl OutOfBounds"
  by (simp add: reader_defs message_def)

text \<open>
  C3, amended. When the channel delivers the chunks \<open>c1, ..., cn\<close> (\<open>n \<ge> 1\<close>, each of 1
  to 160 bytes) and then a read of zero bytes, \<^verbatim>\<open>read_data_from_ssl\<close> returns: the
  first \<^verbatim>\<open>total_bytes\<close> bytes of the block are \<open>c1 @ ... @ cn\<close>, \<^verbatim>\<open>total_bytes\<close> is
  their number, the sentinel follows them, and the flag is as the caller left it, so
  false for a caller that cleared it. The allocator grants every request and the message
  is below 1 GiB, where the sizes stay inside \<^verbatim>\<open>int\<close>.
\<close>

theorem read_data_from_ssl_returns_concatenation:
  assumes heap: "\<forall>k. heap k" and ne: "chunks \<noteq> []" and chunks: "list_all chunk_ok chunks"
    and bound: "int (length (concat chunks)) + READER_BUFFER_SIZE \<le> 2 ^ 30"
  shows "\<exists>R b. read_data_from_ssl heap (map Data chunks @ [Failure 0 e]) endc fx = Inr R
           \<and> message R = map Some (concat chunks)
           \<and> total_bytes R = int (length (concat chunks))
           \<and> end_connection R = endc
           \<and> body (buf R) = Some b \<and> length b = length (concat chunks) + 1
           \<and> b ! length (concat chunks) = Some 0"
proof -
  let ?R0 = "reader_start heap endc fx"
  have ok0: "buffer_ok ?R0"
    using heap by (simp add: buffer_ok_reader_start)
  have b0: "total_bytes ?R0 + int (length (concat chunks)) + READER_BUFFER_SIZE \<le> 2 ^ 30"
    using bound by simp
  obtain R1 where R1: "\<forall>rest. read_loop heap (map Data chunks @ rest) ?R0 = read_loop heap rest R1"
    "buffer_ok R1" "message R1 = message ?R0 @ map Some (concat chunks)"
    "total_bytes R1 = total_bytes ?R0 + int (length (concat chunks))"
    "chunks = [] \<and> R1 = ?R0 \<or> first_reading_done R1 \<and> attempts_after_end_message R1 = 0"
    "end_connection R1 = end_connection ?R0"
    using read_loop_Data_ok [OF heap chunks ok0 b0] by blast
  have pos: "total_bytes R1 \<noteq> 0"
    using R1(4) length_concat_chunks [OF chunks ne] by simp
  have reading: "first_reading_done R1"
    using R1(5) ne by simp
  have rb: "read_buffer R1 \<noteq> []"
    using R1(2) by (auto simp: buffer_ok_def split: option.splits)
  define R2 where "R2 = R1\<lparr>read_bytes := Some 0, read_buffer := (read_buffer R1)[0 := Some 0]\<rparr>"
  have loop2: "read_loop heap [Failure 0 e] R1 = Inr R2"
    unfolding R2_def using reading pos rb by (rule read_loop_zero_read)
  have ok2: "buffer_ok R2"
    using R1(2) by (auto simp: buffer_ok_def R2_def split: option.splits)
  have m2: "message R2 = message R1"
    by (simp add: message_def R2_def split: option.splits)
  have max2: "total_bytes R2 < INT_MAX"
    using R1(4) bound by (simp add: R2_def)
  obtain R3 b where R3: "finalize heap R2 = Inr R3" "message R3 = message R2"
    "total_bytes R3 = total_bytes R2" "end_connection R3 = end_connection R2"
    "body (buf R3) = Some b" "length b = nat (total_bytes R2) + 1"
    "b ! nat (total_bytes R2) = Some 0"
    using finalize_buffer_ok [OF ok2 _ max2] heap by blast
  have run: "read_data_from_ssl heap (map Data chunks @ [Failure 0 e]) endc fx = Inr R3"
    using R1(1) loop2 R3(1) by (simp add: read_data_from_ssl_def)
  have f2: "total_bytes R2 = total_bytes R1" "end_connection R2 = end_connection R1"
    by (simp_all add: R2_def)
  show ?thesis
    using run R3 f2 R1 m2 by (intro exI [of _ R3] exI [of _ b]) simp
qed

theorem read_data_from_ssl_returns_concatenation_witness:
  "\<exists>R b. read_data_from_ssl every_request_granted
            ([Data (replicate 100 1), Data (replicate 60 2)] @ [Failure 0 SSL_ERROR_ZERO_RETURN])
            False \<lparr>sleeps = [], stdout = []\<rparr> = Inr R
         \<and> message R = map Some (replicate 100 1 @ replicate 60 2)
         \<and> total_bytes R = 160
         \<and> end_connection R = False
         \<and> body (buf R) = Some b \<and> length b = 161 \<and> b ! 160 = Some 0"
  using read_data_from_ssl_returns_concatenation [of every_request_granted
      "[replicate 100 1, replicate 60 2]" 6 False "\<lparr>sleeps = [], stdout = []\<rparr>"]
  by (simp add: chunk_ok_def)

subsection \<open>Finalization\<close>

text \<open>
  C8. Finalization never truncates. With \<open>n = total_bytes\<close> bytes in a block that holds
  them: when the \<^verbatim>\<open>realloc\<close> succeeds the returned block has \<open>n + 1\<close> cells, the
  \<open>n\<close> bytes unchanged and the sentinel at index \<open>n\<close>; when it fails and the block is
  larger than \<open>n\<close>, the old block is returned, every cell as it was but the one at index
  \<open>n\<close>, which takes the sentinel.
\<close>

theorem finalize_never_truncates:
  assumes "body (buf R) = Some b" and "0 \<le> total_bytes R" and "total_bytes R < INT_MAX"
    and "total_bytes R \<le> int (length b)" and "n = nat (total_bytes R)"
  shows "(heap (heap_requests (buf R)) \<longrightarrow>
            finalize heap R =
              Inr (R\<lparr>buf := \<lparr>body = Some ((resize (n + 1) b)[n := Some 0]),
                              allocated_space = allocated_space (buf R),
                              heap_requests = heap_requests (buf R) + 1\<rparr>\<rparr>)
            \<and> length ((resize (n + 1) b)[n := Some 0]) = n + 1
            \<and> take n ((resize (n + 1) b)[n := Some 0]) = take n b
            \<and> (resize (n + 1) b)[n := Some 0] ! n = Some 0)
       \<and> (\<not> heap (heap_requests (buf R)) \<and> total_bytes R < int (length b) \<longrightarrow>
            finalize heap R =
              Inr (R\<lparr>buf := \<lparr>body = Some (b[n := Some 0]),
                              allocated_space = allocated_space (buf R),
                              heap_requests = heap_requests (buf R) + 1\<rparr>\<rparr>)
            \<and> length (b[n := Some 0]) = length b
            \<and> take n (b[n := Some 0]) = take n b
            \<and> b[n := Some 0] ! n = Some 0
            \<and> drop (n + 1) (b[n := Some 0]) = drop (n + 1) b)"
proof (intro conjI impI)
  assume ok: "heap (heap_requests (buf R))"
  show "finalize heap R =
          Inr (R\<lparr>buf := \<lparr>body = Some ((resize (n + 1) b)[n := Some 0]),
                          allocated_space = allocated_space (buf R),
                          heap_requests = heap_requests (buf R) + 1\<rparr>\<rparr>)"
    using finalize_resized [where heap = heap, OF assms(1) ok assms(2,3)] by (simp add: assms(5))
  show "take n ((resize (n + 1) b)[n := Some 0]) = take n b"
    using assms(2,4) by (intro take_resize_terminated) (simp add: assms(5))
  show "(resize (n + 1) b)[n := Some 0] ! n = Some 0"
    by (rule nth_resize_terminated)
next
  assume no: "\<not> heap (heap_requests (buf R)) \<and> total_bytes R < int (length b)"
  show "finalize heap R =
          Inr (R\<lparr>buf := \<lparr>body = Some (b[n := Some 0]),
                          allocated_space = allocated_space (buf R),
                          heap_requests = heap_requests (buf R) + 1\<rparr>\<rparr>)"
    using no finalize_kept [where heap = heap, OF assms(1) _ assms(2) _ assms(3)]
    by (simp add: assms(5))
  show "b[n := Some 0] ! n = Some 0"
    using no assms(2) by (simp add: assms(5) nat_less_iff)
qed simp_all

theorem finalize_never_truncates_witness:
  "finalize every_request_granted
     \<lparr>buf = \<lparr>body = Some [Some 1, Some 2, Some 3, None, None], allocated_space = 4,
              heap_requests = 1\<rparr>,
      total_bytes = 3, first_reading_done = True, attempts_after_end_message = 0,
      attempts_to_get_first_message = 0, read_bytes = Some 0, read_buffer = [],
      end_connection = False, io = \<lparr>sleeps = [], stdout = []\<rparr>\<rparr>
   = Inr \<lparr>buf = \<lparr>body = Some [Some 1, Some 2, Some 3, Some 0], allocated_space = 4,
                 heap_requests = 2\<rparr>,
      total_bytes = 3, first_reading_done = True, attempts_after_end_message = 0,
      attempts_to_get_first_message = 0, read_bytes = Some 0, read_buffer = [],
      end_connection = False, io = \<lparr>sleeps = [], stdout = []\<rparr>\<rparr>
   \<and> finalize no_request_granted
     \<lparr>buf = \<lparr>body = Some [Some 1, Some 2, Some 3, None, None], allocated_space = 4,
              heap_requests = 1\<rparr>,
      total_bytes = 3, first_reading_done = True, attempts_after_end_message = 0,
      attempts_to_get_first_message = 0, read_bytes = Some 0, read_buffer = [],
      end_connection = False, io = \<lparr>sleeps = [], stdout = []\<rparr>\<rparr>
   = Inr \<lparr>buf = \<lparr>body = Some [Some 1, Some 2, Some 3, Some 0, None], allocated_space = 4,
                 heap_requests = 2\<rparr>,
      total_bytes = 3, first_reading_done = True, attempts_after_end_message = 0,
      attempts_to_get_first_message = 0, read_bytes = Some 0, read_buffer = [],
      end_connection = False, io = \<lparr>sleeps = [], stdout = []\<rparr>\<rparr>"
  using finalize_never_truncates [of
      "\<lparr>buf = \<lparr>body = Some [Some 1, Some 2, Some 3, None, None], allocated_space = 4,
              heap_requests = 1\<rparr>,
      total_bytes = 3, first_reading_done = True, attempts_after_end_message = 0,
      attempts_to_get_first_message = 0, read_bytes = Some 0, read_buffer = [],
      end_connection = False, io = \<lparr>sleeps = [], stdout = []\<rparr>\<rparr>"
      "[Some 1, Some 2, Some 3, None, None]" 3 every_request_granted]
    finalize_never_truncates [of
      "\<lparr>buf = \<lparr>body = Some [Some 1, Some 2, Some 3, None, None], allocated_space = 4,
              heap_requests = 1\<rparr>,
      total_bytes = 3, first_reading_done = True, attempts_after_end_message = 0,
      attempts_to_get_first_message = 0, read_bytes = Some 0, read_buffer = [],
      end_connection = False, io = \<lparr>sleeps = [], stdout = []\<rparr>\<rparr>"
      "[Some 1, Some 2, Some 3, None, None]" 3 no_request_granted]
  by (simp add: resize_def)

subsection \<open>Growth of the buffer\<close>

text \<open>
  C7. An append of \<open>k\<close> bytes (\<open>0 < k \<le> 160\<close>, what one read delivers) that finds the
  headroom insufficient, in a buffer as the reader keeps it (at most \<^verbatim>\<open>allocated_space\<close>
  bytes, in a block of at least that size): when the \<^verbatim>\<open>realloc\<close> succeeds the capacity
  is doubled and is at least \<open>total_bytes + k\<close>, the first \<open>total_bytes\<close> bytes are as
  before and the \<open>k\<close> new bytes follow them. The buffer is any such buffer, whatever the
  number of doublings behind it.
\<close>

theorem save_read_data_growth_keeps_bytes:
  assumes "body B = Some b" and "heap (heap_requests B)"
    and "allocated_space B - READER_BUFFER_SIZE < tot"
    and "0 \<le> tot" and "tot \<le> allocated_space B" and "allocated_space B \<le> int (length b)"
    and "0 < k" and "k \<le> READER_BUFFER_SIZE" and "k \<le> int (length rbuf)"
    and "READER_BUFFER_SIZE \<le> allocated_space B" and "2 * allocated_space B + 1 \<le> INT_MAX"
  shows "\<exists>b'. save_read_data heap B rbuf tot k =
                Inr \<lparr>body = Some b', allocated_space = 2 * allocated_space B,
                     heap_requests = heap_requests B + 1\<rparr>
           \<and> tot + k \<le> 2 * allocated_space B
           \<and> int (length b') = 2 * allocated_space B + 1
           \<and> take (nat tot) b' = take (nat tot) b
           \<and> take (nat k) (drop (nat tot) b') = take (nat k) rbuf"
proof -
  define b1 where "b1 = resize (nat (2 * allocated_space B + 1)) b"
  define b' where "b' = take (nat tot) b1 @ take (nat k) rbuf @ drop (nat (tot + k)) b1"
  have a0: "0 \<le> allocated_space B"
    using assms(10) by simp
  have l1: "int (length b1) = 2 * allocated_space B + 1"
    using a0 by (simp add: b1_def)
  have room: "tot + k \<le> 2 * allocated_space B"
    using assms(5,8,10) by linarith
  have fits: "tot + k \<le> int (length b1)"
    using room l1 by simp
  have k0: "0 \<le> k"
    using assms(7) by simp
  have save: "save_read_data heap B rbuf tot k =
                Inr \<lparr>body = Some b', allocated_space = 2 * allocated_space B,
                     heap_requests = heap_requests B + 1\<rparr>"
    unfolding b'_def
    using assms(1,3,2) a0 assms(11,4) k0 _ assms(9) b1_def
  proof (rule save_read_data_resized)
    show "tot + k \<le> 2 * allocated_space B + 1"
      using room by simp
  qed
  have old: "take (nat tot) b1 = take (nat tot) b"
    unfolding b1_def using assms(4,5,6) a0 by (intro take_resize) linarith+
  have "length b' = length b1" and "take (nat tot) b' = take (nat tot) b1"
    and "take (nat k) (drop (nat tot) b') = take (nat k) rbuf"
    using copied_parts [OF assms(4) k0 fits assms(9) b'_def] by simp_all
  then show ?thesis
    using save room l1 old by (intro exI [of _ b']) simp
qed

theorem save_read_data_growth_keeps_bytes_witness:
  "\<exists>b'. save_read_data every_request_granted
            \<lparr>body = Some (replicate 2000 (Some 7) @ replicate 49 None), allocated_space = 2048,
             heap_requests = 2\<rparr>
            [Some 1, Some 2, Some 0] 2000 2 =
          Inr \<lparr>body = Some b', allocated_space = 4096, heap_requests = 3\<rparr>
        \<and> int (length b') = 4097
        \<and> take 2000 b' = replicate 2000 (Some 7)
        \<and> take 2 (drop 2000 b') = [Some 1, Some 2]"
  using save_read_data_growth_keeps_bytes [of
      "\<lparr>body = Some (replicate 2000 (Some 7) @ replicate 49 None), allocated_space = 2048,
        heap_requests = 2\<rparr>"
      "replicate 2000 (Some 7) @ replicate 49 None" every_request_granted 2000 2 "[Some 1, Some 2, Some 0]"]
  by simp

text \<open>
  C6 does not hold of the code. When growth is needed and the \<^verbatim>\<open>realloc\<close> fails,
  \<^verbatim>\<open>save_read_data\<close> keeps the old block, as its test for \<^verbatim>\<open>NULL\<close> intends, but
  it has already doubled the recorded capacity and it copies the chunk all the same.
  With 900 bytes in the first block of 1024, a chunk of 160 bytes is copied past the end
  of the block; the same happens in the reader after reads of 160, 160, 160, 160, 160
  and 100 bytes. Where the chunk fits in the old block the byte is written and the
  function returns as after any append: nothing tells the caller of the failure.
\<close>

theorem save_read_data_after_failed_realloc:
  "save_read_data no_request_granted
     \<lparr>body = Some (replicate 900 (Some 1) @ replicate 124 None), allocated_space = 1024,
      heap_requests = 1\<rparr>
     (replicate 160 (Some 7) @ [Some 0]) 900 160
   = Inl OutOfBounds
   \<and> read_data_from_ssl only_malloc_granted
        [Data (replicate 160 1), Data (replicate 160 1), Data (replicate 160 1),
         Data (replicate 160 1), Data (replicate 160 1), Data (replicate 100 2),
         Data (replicate 160 3), Failure 0 SSL_ERROR_ZERO_RETURN]
        False \<lparr>sleeps = [], stdout = []\<rparr>
   = Inl OutOfBounds
   \<and> save_read_data no_request_granted
     \<lparr>body = Some (replicate 1889 (Some 1) @ replicate 160 None), allocated_space = 2048,
      heap_requests = 2\<rparr>
     [Some 7, Some 0] 1889 1
   = Inr \<lparr>body = Some (replicate 1889 (Some 1) @ Some 7 # replicate 159 None),
          allocated_space = 4096, heap_requests = 3\<rparr>"
  by (simp add: reader_defs)

subsection \<open>The end-of-connection flag\<close>

text \<open>
  C10. The flag is written in one place only, in \<^verbatim>\<open>treat_SSL_read_error\<close>, when the
  last read returned 0 bytes and \<^verbatim>\<open>total_bytes\<close> is 0, and what is written is true.
  So the loop, the finalization and \<^verbatim>\<open>read_data_from_ssl\<close> as a whole return the flag
  as it was handed in, unless the last read returned 0 bytes with \<^verbatim>\<open>total_bytes\<close> at 0,
  where it is true.
\<close>

theorem end_connection_frame:
  "(case treat_SSL_read_error err a tot rd e fx of
      (t, a', e', fx') \<Rightarrow> e' = (if rd = 0 \<and> tot = 0 then True else e))
   \<and> (read_loop heap script R0 = Inr R1 \<longrightarrow>
        end_connection R1 = end_connection R0
        \<or> end_connection R1 \<and> read_bytes R1 = Some 0 \<and> total_bytes R1 = 0)
   \<and> (finalize heap R0 = Inr R2 \<longrightarrow> end_connection R2 = end_connection R0)
   \<and> (read_data_from_ssl heap script endc fx = Inr R \<longrightarrow>
        end_connection R = endc
        \<or> end_connection R \<and> read_bytes R = Some 0 \<and> total_bytes R = 0)"
proof (intro conjI impI)
  show "case treat_SSL_read_error err a tot rd e fx of
          (t, a', e', fx') \<Rightarrow> e' = (if rd = 0 \<and> tot = 0 then True else e)"
    by (simp add: treat_SSL_read_error_def Let_def)
next
  assume "read_loop heap script R0 = Inr R1"
  then show "end_connection R1 = end_connection R0
        \<or> end_connection R1 \<and> read_bytes R1 = Some 0 \<and> total_bytes R1 = 0"
    by (rule read_loop_flag)
next
  assume "finalize heap R0 = Inr R2"
  then show "end_connection R2 = end_connection R0"
    by (simp add: finalize_frame)
next
  assume run: "read_data_from_ssl heap script endc fx = Inr R"
  then obtain R' where loop: "read_loop heap script (reader_start heap endc fx) = Inr R'"
    and fin: "finalize heap R' = Inr R"
    by (auto simp: read_data_from_ssl_def split: sum.splits)
  have "end_connection R' = endc
        \<or> end_connection R' \<and> read_bytes R' = Some 0 \<and> total_bytes R' = 0"
    using read_loop_flag [OF loop] by simp
  then show "end_connection R = endc
        \<or> end_connection R \<and> read_bytes R = Some 0 \<and> total_bytes R = 0"
    using finalize_frame [OF fin] by simp
qed

theorem end_connection_frame_witness:
  "fst (snd (snd (treat_SSL_read_error SSL_ERROR_ZERO_RETURN 0 0 0 False \<lparr>sleeps = [], stdout = []\<rparr>)))
   \<and> (\<exists>R1. read_loop every_request_granted [Failure 0 SSL_ERROR_ZERO_RETURN]
               ((reader_start every_request_granted True \<lparr>sleeps = [], stdout = []\<rparr>)
                  \<lparr>attempts_to_get_first_message := 9\<rparr>) = Inr R1
           \<and> end_connection R1)
   \<and> (\<exists>R2. finalize every_request_granted (reader_start every_request_granted True \<lparr>sleeps = [], stdout = []\<rparr>) = Inr R2
           \<and> end_connection R2)
   \<and> (\<exists>R. read_data_from_ssl every_request_granted [Data [1], Failure 0 SSL_ERROR_ZERO_RETURN] True
              \<lparr>sleeps = [], stdout = []\<rparr> = Inr R
           \<and> end_connection R)"
proof -
  let ?fx = "\<lparr>sleeps = [], stdout = []\<rparr>"
  let ?R0 = "(reader_start every_request_granted True ?fx)\<lparr>attempts_to_get_first_message := 9\<rparr>"
  obtain R1 where R1: "read_loop every_request_granted [Failure 0 SSL_ERROR_ZERO_RETURN] ?R0 = Inr R1"
    by (simp add: reader_defs)
  obtain R2 where R2: "finalize every_request_granted (reader_start every_request_granted True ?fx) = Inr R2"
    by (simp add: reader_defs)
  obtain R where R: "read_data_from_ssl every_request_granted [Data [1], Failure 0 SSL_ERROR_ZERO_RETURN] True ?fx = Inr R"
    by (simp add: reader_defs)
  have t: "fst (snd (snd (treat_SSL_read_error SSL_ERROR_ZERO_RETURN 0 0 0 False ?fx)))"
    using end_connection_frame [of 0 0 False 6 0 ?fx every_request_granted "[]" ?R0 R1 R2 True R]
    by (auto split: prod.splits)
  have e1: "end_connection R1"
    using end_connection_frame [of 0 0 False 6 0 ?fx every_request_granted
        "[Failure 0 SSL_ERROR_ZERO_RETURN]" ?R0 R1 R2 True R] R1
    by (auto simp: reader_start_def)
  have e2: "end_connection R2"
    using end_connection_frame [of 0 0 False 6 0 ?fx every_request_granted "[]"
        "reader_start every_request_granted True ?fx" R1 R2 True R] R2
    by (auto simp: reader_start_def)
  have e3: "end_connection R"
    using end_connection_frame [of 0 0 False 6 0 ?fx every_request_granted
        "[Data [1], Failure 0 SSL_ERROR_ZERO_RETURN]" ?R0 R1 R2 True R] R
    by auto
  show ?thesis
    using t e1 e2 e3 R1 R2 R by blast
qed

subsection \<open>The first read of a message\<close>

text \<open>
  C1 does not hold of the code. When the first read returns zero bytes the waiter is
  called, returns 0 (the counter is 1, not 10), and the test \<^verbatim>\<open>!= -1\<close> leaves the loop
  before \<^verbatim>\<open>treat_SSL_read_error\<close> is reached: the payload is empty and the flag is
  what the caller put there, false for a caller that cleared it.
\<close>

theorem first_read_zero_leaves_flag:
  "read_loop heap (Failure 0 e # rest) (reader_start heap endc fx) =
     Inr ((reader_start heap endc fx)
            \<lparr>read_bytes := Some 0,
             read_buffer := (replicate 161 None)[0 := Some 0],
             attempts_to_get_first_message := 1,
             io := fx\<lparr>sleeps := sleeps fx @ [SLEEP_TIME]\<rparr>\<rparr>)
   \<and> (case read_data_from_ssl every_request_granted [Failure 0 SSL_ERROR_ZERO_RETURN] False
            \<lparr>sleeps = [], stdout = []\<rparr> of
         Inr R \<Rightarrow> message R = [] \<and> total_bytes R = 0 \<and> end_connection R = False
                  \<and> body (buf R) = Some [Some 0]
                  \<and> attempts_to_get_first_message R = 1 \<and> sleeps (io R) = [SLEEP_TIME]
       | Inl s \<Rightarrow> False)"
  by (simp add: reader_defs message_def)

text \<open>
  C2 does not hold of the code. The waiter adds one to the counter, sleeps once and
  returns \<open>-1\<close> exactly when the counter has reached 10; but the loop is left at the
  first failed read, with the counter at 1 and one sleep, because it is left when the
  waiter's result differs from \<open>-1\<close>. Of ten would-block reads that return 0 only the
  first is made; one that returns \<open>-1\<close> does not even get that far, the store into
  \<^verbatim>\<open>read_buffer\<close> falling in front of the array.
\<close>

theorem first_failed_read_leaves_loop:
  "wait_for_first_message a fx =
     ((if a + 1 = MAX_RETRIES_TO_START_READING then - 1 else 0), a + 1,
      fx\<lparr>sleeps := sleeps fx @ [SLEEP_TIME]\<rparr>)
   \<and> read_loop heap (Failure 0 SSL_ERROR_WANT_READ # rest) (reader_start heap endc fx) =
     Inr ((reader_start heap endc fx)
            \<lparr>read_bytes := Some 0,
             read_buffer := (replicate 161 None)[0 := Some 0],
             attempts_to_get_first_message := 1,
             io := fx\<lparr>sleeps := sleeps fx @ [SLEEP_TIME]\<rparr>\<rparr>)
   \<and> read_loop heap (Failure (- 1) SSL_ERROR_WANT_READ # rest) (reader_start heap endc fx) =
     Inl OutOfBounds
   \<and> (case read_data_from_ssl every_request_granted (replicate 10 (Failure 0 SSL_ERROR_WANT_READ)) False
            \<lparr>sleeps = [], stdout = []\<rparr> of
         Inr R \<Rightarrow> message R = [] \<and> total_bytes R = 0 \<and> end_connection R = False
                  \<and> attempts_to_get_first_message R = 1 \<and> sleeps (io R) = [SLEEP_TIME]
       | Inl s \<Rightarrow> False)"
proof -
  have r: "replicate 10 (Failure 0 SSL_ERROR_WANT_READ)
             = Failure 0 SSL_ERROR_WANT_READ # replicate 9 (Failure 0 SSL_ERROR_WANT_READ)"
    by (simp add: numeral_eq_Suc)
  show ?thesis
    unfolding r by (simp add: reader_defs message_def Let_def)
qed

subsection \<open>Room for the sentinel\<close>

text \<open>
  C5 does not hold of the code. The first block has \<^verbatim>\<open>FULL_BUFFER_SIZE\<close> cells, with no
  cell for the sentinel, while both \<^verbatim>\<open>realloc\<close> calls ask for one more. Reads of
  160, 160, 160, 160, 160, 64 and 160 bytes fill the 1024 cells without any growth: at
  the end of the loop \<^verbatim>\<open>total_bytes\<close> is 1024 in a block of 1024 cells, and when the
  last \<^verbatim>\<open>realloc\<close> fails the sentinel is stored past the end of the block.
\<close>

theorem full_block_has_no_room_for_sentinel:
  "(case read_loop every_request_granted
           [Data (replicate 160 1), Data (replicate 160 1), Data (replicate 160 1),
            Data (replicate 160 1), Data (replicate 160 1), Data (replicate 64 2),
            Data (replicate 160 3), Failure 0 SSL_ERROR_ZERO_RETURN]
           (reader_start every_request_granted False \<lparr>sleeps = [], stdout = []\<rparr>) of
      Inr R \<Rightarrow> total_bytes R = 1024 \<and> allocated_space (buf R) = 1024
               \<and> map_option length (body (buf R)) = Some 1024
    | Inl s \<Rightarrow> False)
   \<and> read_data_from_ssl only_malloc_granted
           [Data (replicate 160 1), Data (replicate 160 1), Data (replicate 160 1),
            Data (replicate 160 1), Data (replicate 160 1), Data (replicate 64 2),
            Data (replicate 160 3), Failure 0 SSL_ERROR_ZERO_RETURN]
           False \<lparr>sleeps = [], stdout = []\<rparr>
       = Inl OutOfBounds"
  by (simp add: reader_defs)

subsection \<open>The message writer\<close>

text \<open>
  C9. \<^verbatim>\<open>write_data_in_ssl\<close> calls \<^verbatim>\<open>SSL_write_ex\<close> once. When the call succeeds it
  returns the number of bytes written (a count that fits \<^verbatim>\<open>int\<close>); when the call
  returns 0 it returns \<open>-1\<close>, whatever \<^verbatim>\<open>SSL_get_error\<close> answers, and makes no
  second call.
\<close>

theorem write_data_in_ssl_result:
  "(wret w \<noteq> 0 \<and> int (written w) \<le> INT_MAX \<longrightarrow>
      write_data_in_ssl (w # ws) msg tot fx = Inr (int (written w), ws, fx))
   \<and> (wret w = 0 \<longrightarrow>
      (case write_data_in_ssl (w # ws) msg tot fx of
         Inr (r, rest, fx') \<Rightarrow> r = - 1 \<and> rest = ws
       | Inl s \<Rightarrow> False))"
  by (simp add: int_of_size_t_small Let_def)

theorem write_data_in_ssl_result_witness:
  "write_data_in_ssl [\<lparr>wret = 1, written = 500, status = SSL_ERROR_NONE\<rparr>] (replicate 500 0) 500
       \<lparr>sleeps = [], stdout = []\<rparr>
     = Inr (500, [], \<lparr>sleeps = [], stdout = []\<rparr>)
   \<and> (case write_data_in_ssl
             [\<lparr>wret = 0, written = 0, status = SSL_ERROR_WANT_READ\<rparr>,
              \<lparr>wret = 1, written = 500, status = SSL_ERROR_NONE\<rparr>]
             (replicate 500 0) 500 \<lparr>sleeps = [], stdout = []\<rparr> of
         Inr (r, rest, fx') \<Rightarrow> r = - 1 \<and> rest = [\<lparr>wret = 1, written = 500, status = SSL_ERROR_NONE\<rparr>]
       | Inl s \<Rightarrow> False)
   \<and> (case write_data_in_ssl
             [\<lparr>wret = 0, written = 0, status = SSL_ERROR_WANT_WRITE\<rparr>,
              \<lparr>wret = 1, written = 500, status = SSL_ERROR_NONE\<rparr>]
             (replicate 500 0) 500 \<lparr>sleeps = [], stdout = []\<rparr> of
         Inr (r, rest, fx') \<Rightarrow> r = - 1 \<and> rest = [\<lparr>wret = 1, written = 500, status = SSL_ERROR_NONE\<rparr>]
       | Inl s \<Rightarrow> False)
   \<and> (case write_data_in_ssl
             [\<lparr>wret = 0, written = 0, status = SSL_ERROR_SSL\<rparr>,
              \<lparr>wret = 1, written = 500, status = SSL_ERROR_NONE\<rparr>]
             (replicate 500 0) 500 \<lparr>sleeps = [], stdout = []\<rparr> of
         Inr (r, rest, fx') \<Rightarrow> r = - 1 \<and> rest = [\<lparr>wret = 1, written = 500, status = SSL_ERROR_NONE\<rparr>]
       | Inl s \<Rightarrow> False)"
  using write_data_in_ssl_result [of "\<lparr>wret = 1, written = 500, status = SSL_ERROR_NONE\<rparr>" "[]"
      "replicate 500 0" 500 "\<lparr>sleeps = [], stdout = []\<rparr>"]
    write_data_in_ssl_result [of "\<lparr>wret = 0, written = 0, status = SSL_ERROR_WANT_READ\<rparr>"
      "[\<lparr>wret = 1, written = 500, status = SSL_ERROR_NONE\<rparr>]"
      "replicate 500 0" 500 "\<lparr>sleeps = [], stdout = []\<rparr>"]
    write_data_in_ssl_result [of "\<lparr>wret = 0, written = 0, status = SSL_ERROR_WANT_WRITE\<rparr>"
      "[\<lparr>wret = 1, written = 500, status = SSL_ERROR_NONE\<rparr>]"
      "replicate 500 0" 500 "\<lparr>sleeps = [], stdout = []\<rparr>"]
    write_data_in_ssl_result [of "\<lparr>wret = 0, written = 0, status = SSL_ERROR_SSL\<rparr>"
      "[\<lparr>wret = 1, written = 500, status = SSL_ERROR_NONE\<rparr>]"
      "replicate 500 0" 500 "\<lparr>sleeps = [], stdout = []\<rparr>"]
  by (simp del: write_data_in_ssl.simps)

end
